theory Spec2Isabelle
  imports Complex_Main
begin

section \<open>Common values\<close>

text \<open>
  A JavaScript string is a sequence of UTF-16 code units. JavaScript numbers are
  modelled as reals (counts as naturals): the rounding of IEEE doubles is outside the
  model. \<open>Date.now()\<close> is an input of every handler that reads the clock.
\<close>

type_synonym jsstring = "nat list"

text \<open>The code units removed by \<open>String.prototype.trim\<close>: WhiteSpace and LineTerminator.\<close>

definition isWhiteSpace :: "nat \<Rightarrow> bool" where
  "isWhiteSpace c \<longleftrightarrow>
     c \<in> {9, 10, 11, 12, 13, 32, 160, 5760, 8232, 8233, 8239, 8287, 12288, 65279}
     \<or> (8192 \<le> c \<and> c \<le> 8202)"

definition trim :: "jsstring \<Rightarrow> jsstring" where
  "trim s = rev (dropWhile isWhiteSpace (rev (dropWhile isWhiteSpace s)))"

text \<open>What the components write to the console and show in alert boxes, one constructor per call site.\<close>

datatype logmsg =
    ErroAcessarMicrofone
  | ErroProcessamentoAudio
  | ErroReproduzirAudio
  | WebSocketError
  | ErroConectandoWebSocket
  | ErroIniciarGravacao
  | ErroProcessandoAudio
  | ErroEnviandoMensagem

datatype alertmsg =
    AlertMicrofonePermissoes
  | AlertMicrofone
  | AlertProcessarAudio

section \<open>RealTimeChat.tsx\<close>

datatype role = User | Assistant

record message =
  id_rt :: nat
  role :: role
  content :: jsstring
  timestamp_rt :: nat
  processingTime :: "real option"

text \<open>
  The parsed \<open>event.data\<close> of the socket: only \<open>type === 'chat_response'\<close> is acted on,
  with its \<open>content\<close> and its \<open>processing_time\<close>, which may be absent.
\<close>

datatype inbound =
    ChatResponse jsstring "real option"
  | OtherInbound

datatype outbound = Chat jsstring

datatype readyState = CONNECTING | OPEN | CLOSING | CLOSED

text \<open>
  A WebSocket object created by \<open>connectWebSocket\<close>. Its handlers are closures of the
  effect run that created it: \<open>captured\<close> is the value of \<open>totalMessages\<close> they see.
\<close>

record socket =
  readyState :: readyState
  captured :: nat
  sent :: "outbound list"

text \<open>
  A MediaRecorder with its stream: recording, \<open>stop()\<close> called and the stop event not
  yet delivered, \<open>onstop\<close> awaiting \<open>processAudio\<close>, tracks stopped. \<open>stop()\<close> returns
  at once and the browser delivers the stop event, which runs \<open>onstop\<close>, in a later
  task. The recorded audio is not modelled: what the transcription returns for it is an
  input.
\<close>

datatype recstate = Recording | Stopping | Transcribing | Released

text \<open>
  The component: its React state, its refs, and the browser objects it has created
  (sockets, pending \<open>setTimeout(connectWebSocket, 3000)\<close> timers as delay and the
  closure's \<open>totalMessages\<close>, recorders, pending \<open>getUserMedia\<close> calls).
\<close>

record rtc =
  mounted :: bool
  messages :: "message list"
  isRecording :: bool
  isProcessing :: bool
  inputText :: jsstring
  avgResponseTime :: real
  totalMessages :: nat
  wsRef :: "nat option"
  mediaRecorderRef :: "nat option"
  sockets :: "socket list"
  timers :: "(nat \<times> nat) list"
  recorders :: "recstate list"
  micPending :: nat
  spoken :: "jsstring list"
  console :: "logmsg list"
  alerts :: "alertmsg list"

definition initial :: rtc where
  "initial = \<lparr> mounted = False, messages = [], isRecording = False, isProcessing = False, inputText = [],
     avgResponseTime = 0, totalMessages = 0, wsRef = None, mediaRecorderRef = None,
     sockets = [], timers = [], recorders = [], micPending = 0, spoken = [],
     console = [], alerts = [] \<rparr>"

definition speakText :: "jsstring \<Rightarrow> rtc \<Rightarrow> rtc" where
  "speakText t s = s\<lparr>spoken := spoken s @ [t]\<rparr>"

text \<open>
  \<open>wsRef.current.onmessage\<close>, lines 33-59. \<open>n\<close> is the \<open>totalMessages\<close> of the closure;
  the two functional updates read the current state through \<open>prev\<close>, and
  \<open>if (data.processing_time)\<close> is false for an absent field and for \<open>0\<close>.
\<close>

definition onmessage :: "nat \<Rightarrow> nat \<Rightarrow> inbound \<Rightarrow> rtc \<Rightarrow> rtc" where
  "onmessage n now d s =
     (case d of
        OtherInbound \<Rightarrow> s
      | ChatResponse c pt \<Rightarrow>
          let newMessage = \<lparr> id_rt = now, role = Assistant, content = c,
                timestamp_rt = now, processingTime = pt \<rparr>;
              s1 = s\<lparr>messages := messages s @ [newMessage], isProcessing := False\<rparr>;
              s2 = (case pt of
                      None \<Rightarrow> s1
                    | Some t \<Rightarrow>
                        if t \<noteq> 0
                        then s1\<lparr>totalMessages := totalMessages s1 + 1,
                                avgResponseTime :=
                                  (avgResponseTime s1 * real n + t) / (real n + 1)\<rparr>
                        else s1)
          in speakText c s2)"

text \<open>\<open>connectWebSocket\<close> of the effect run that saw \<open>totalMessages = n\<close>, lines 26-66.\<close>

definition connectWebSocket :: "nat \<Rightarrow> rtc \<Rightarrow> rtc" where
  "connectWebSocket n s =
     s\<lparr>sockets := sockets s @ [\<lparr>readyState = CONNECTING, captured = n, sent = []\<rparr>],
       wsRef := Some (length (sockets s))\<rparr>"

text \<open>\<open>onclose\<close>, lines 61-65: the closure's \<open>connectWebSocket\<close> is scheduled after 3000 ms.\<close>

definition onclose :: "nat \<Rightarrow> rtc \<Rightarrow> rtc" where
  "onclose n s = s\<lparr>timers := timers s @ [(3000, n)]\<rparr>"

text \<open>\<open>WebSocket.close()\<close>: starts the closing handshake unless already closing or closed.\<close>

definition ws_close :: "nat \<Rightarrow> rtc \<Rightarrow> rtc" where
  "ws_close i s =
     (if i < length (sockets s) \<and> readyState (sockets s ! i) \<in> {CONNECTING, OPEN}
      then s\<lparr>sockets := (sockets s)[i := (sockets s ! i)\<lparr>readyState := CLOSING\<rparr>]\<rparr>
      else s)"

text \<open>The effect's cleanup, lines 70-74: it reads \<open>wsRef.current\<close> when it runs.\<close>

definition cleanup :: "rtc \<Rightarrow> rtc" where
  "cleanup s = (case wsRef s of None \<Rightarrow> s | Some i \<Rightarrow> ws_close i s)"

text \<open>
  \<open>useEffect(..., [totalMessages])\<close>: when a handler has changed \<open>totalMessages\<close>, React
  runs the cleanup of the previous effect and then the effect with the new value.
\<close>

definition rerun_effect :: "nat \<Rightarrow> rtc \<Rightarrow> rtc" where
  "rerun_effect before s =
     (if totalMessages s = before then s
      else connectWebSocket (totalMessages s) (cleanup s))"

text \<open>\<open>sendMessage\<close>, lines 165-184.\<close>

definition sendMessage :: "jsstring \<Rightarrow> nat \<Rightarrow> rtc \<Rightarrow> rtc" where
  "sendMessage t now s =
     (let userMessage = \<lparr> id_rt = now, role = User, content = t,
            timestamp_rt = now, processingTime = None \<rparr>;
          s1 = s\<lparr>messages := messages s @ [userMessage], inputText := [],
                 isProcessing := True\<rparr>
      in case wsRef s1 of
           None \<Rightarrow> s1
         | Some i \<Rightarrow>
             if i < length (sockets s1) \<and> readyState (sockets s1 ! i) = OPEN
             then s1\<lparr>sockets := (sockets s1)
                    [i := (sockets s1 ! i)\<lparr>sent := sent (sockets s1 ! i) @ [Chat t]\<rparr>]\<rparr>
             else s1)"

text \<open>\<open>handleTextSubmit\<close>, lines 187-192.\<close>

definition handleTextSubmit :: "nat \<Rightarrow> rtc \<Rightarrow> rtc" where
  "handleTextSubmit now s =
     (if trim (inputText s) \<noteq> [] then sendMessage (trim (inputText s)) now s else s)"

text \<open>
  \<open>startRecording\<close>, lines 100-125, from the point where \<open>getUserMedia\<close> settles:
  granted, a new recorder becomes \<open>mediaRecorderRef.current\<close> and is started; rejected,
  the catch block logs and alerts.
\<close>

definition startRecording :: "bool \<Rightarrow> rtc \<Rightarrow> rtc" where
  "startRecording granted s =
     (if granted
      then s\<lparr>recorders := recorders s @ [Recording],
             mediaRecorderRef := Some (length (recorders s)),
             isRecording := True\<rparr>
      else s\<lparr>console := console s @ [ErroAcessarMicrofone],
             alerts := alerts s @ [AlertMicrofonePermissoes]\<rparr>)"

text \<open>
  \<open>stopRecording\<close>, lines 128-133. \<open>MediaRecorder.stop()\<close> on a recorder that is not
  recording throws, so the state update after it is not reached.
\<close>

definition stopRecording :: "rtc \<Rightarrow> rtc" where
  "stopRecording s =
     (case mediaRecorderRef s of
        None \<Rightarrow> s
      | Some r \<Rightarrow>
          if isRecording s \<and> r < length (recorders s) \<and> recorders s ! r = Recording
          then s\<lparr>recorders := (recorders s)[r := Stopping], isRecording := False\<rparr>
          else s)"

text \<open>
  The result of the transcription request in \<open>processAudio\<close>: the fetch or the JSON
  decoding throws (or \<open>data.text\<close> is not a string, so that \<open>trim\<close> throws), the
  response is not \<open>ok\<close>, or the response is \<open>ok\<close> and carries a text.
\<close>

datatype stt = SttThrows | SttNotOk | SttOk jsstring

text \<open>\<open>processAudio\<close>, lines 136-162: up to the fetch, and from the fetch's result on.\<close>

definition processAudio_begin :: "rtc \<Rightarrow> rtc" where
  "processAudio_begin s = s\<lparr>isProcessing := True\<rparr>"

definition processAudio_resume :: "stt \<Rightarrow> nat \<Rightarrow> rtc \<Rightarrow> rtc" where
  "processAudio_resume r now s =
     (case r of
        SttOk transcribedText \<Rightarrow>
          if trim transcribedText \<noteq> [] then sendMessage transcribedText now s
          else s\<lparr>isProcessing := False\<rparr>
      | SttNotOk \<Rightarrow> s
      | SttThrows \<Rightarrow> s\<lparr>console := console s @ [ErroProcessamentoAudio],
                        isProcessing := False\<rparr>)"

definition processAudio :: "stt \<Rightarrow> nat \<Rightarrow> rtc \<Rightarrow> rtc" where
  "processAudio r now s = processAudio_resume r now (processAudio_begin s)"

text \<open>
  What the browser and the user can do to the component. The controls follow the JSX:
  the microphone button and the text input are \<open>disabled={isProcessing}\<close>, the submit
  button is \<open>disabled={!inputText.trim() || isProcessing}\<close>, and the microphone button
  calls \<open>stopRecording\<close> when \<open>isRecording\<close> and \<open>startRecording\<close> otherwise.
  Socket close events and timers are delivered whether the component is mounted or
  not; after the unmount the model follows nothing else.
\<close>

datatype event =
    Mount
  | Unmount
  | WsOpen nat
  | WsMessage nat inbound nat
  | WsClose nat
  | TimerFire nat
  | TypeText jsstring
  | SubmitForm nat
  | ClickMic
  | MicSettled bool
  | RecorderStop nat
  | SttDone nat stt nat

definition step :: "event \<Rightarrow> rtc \<Rightarrow> rtc" where
  "step e s =
     (case e of
        Mount \<Rightarrow>
          if mounted s then s else connectWebSocket (totalMessages s) (s\<lparr>mounted := True\<rparr>)
      | Unmount \<Rightarrow>
          if mounted s then cleanup (s\<lparr>mounted := False\<rparr>) else s
      | WsOpen i \<Rightarrow>
          if i < length (sockets s) \<and> readyState (sockets s ! i) = CONNECTING
          then s\<lparr>sockets := (sockets s)[i := (sockets s ! i)\<lparr>readyState := OPEN\<rparr>]\<rparr>
          else s
      | WsMessage i d now \<Rightarrow>
          if mounted s \<and> i < length (sockets s) \<and> readyState (sockets s ! i) = OPEN
          then rerun_effect (totalMessages s) (onmessage (captured (sockets s ! i)) now d s)
          else s
      | WsClose i \<Rightarrow>
          if i < length (sockets s) \<and> readyState (sockets s ! i) \<noteq> CLOSED
          then onclose (captured (sockets s ! i))
                 (s\<lparr>sockets := (sockets s)[i := (sockets s ! i)\<lparr>readyState := CLOSED\<rparr>]\<rparr>)
          else s
      | TimerFire k \<Rightarrow>
          if k < length (timers s)
          then connectWebSocket (snd (timers s ! k))
                 (s\<lparr>timers := take k (timers s) @ drop (Suc k) (timers s)\<rparr>)
          else s
      | TypeText t \<Rightarrow>
          if mounted s \<and> \<not> isProcessing s then s\<lparr>inputText := t\<rparr> else s
      | SubmitForm now \<Rightarrow>
          if mounted s \<and> \<not> isProcessing s \<and> trim (inputText s) \<noteq> []
          then handleTextSubmit now s else s
      | ClickMic \<Rightarrow>
          if mounted s \<and> \<not> isProcessing s
          then (if isRecording s then stopRecording s
                else s\<lparr>micPending := micPending s + 1\<rparr>)
          else s
      | MicSettled granted \<Rightarrow>
          if mounted s \<and> 0 < micPending s
          then startRecording granted (s\<lparr>micPending := micPending s - 1\<rparr>)
          else s
      | RecorderStop r \<Rightarrow>
          if mounted s \<and> r < length (recorders s) \<and> recorders s ! r = Stopping
          then processAudio_begin (s\<lparr>recorders := (recorders s)[r := Transcribing]\<rparr>)
          else s
      | SttDone r res now \<Rightarrow>
          if mounted s \<and> r < length (recorders s) \<and> recorders s ! r = Transcribing
          then (processAudio_resume res now s)\<lparr>recorders := (recorders s)[r := Released]\<rparr>
          else s)"

fun run :: "event list \<Rightarrow> rtc \<Rightarrow> rtc" where
  "run [] s = s"
| "run (e # es) s = run es (step e s)"


text \<open>The transcription errs, or yields empty or whitespace-only text.\<close>

definition no_text :: "stt \<Rightarrow> bool" where
  "no_text r \<longleftrightarrow>
     (case r of SttThrows \<Rightarrow> True | SttNotOk \<Rightarrow> True | SttOk t \<Rightarrow> trim t = [])"

section \<open>useAudioPlayer.ts\<close>

text \<open>An \<open>HTMLAudioElement\<close> created by \<open>playAudio\<close> for the object URL of a blob.\<close>

record audio =
  src :: nat
  playing :: bool
  position :: real

record player =
  isPlaying :: bool
  currentTime :: real
  duration :: real
  audioRef :: "nat option"
  audios :: "audio list"
  revoked :: "nat list"
  console_pl :: "logmsg list"

definition idle :: player where
  "idle = \<lparr> isPlaying = False, currentTime = 0, duration = 0, audioRef = None,
     audios = [], revoked = [], console_pl = [] \<rparr>"

definition pause :: "nat \<Rightarrow> player \<Rightarrow> player" where
  "pause a s =
     (if a < length (audios s)
      then s\<lparr>audios := (audios s)[a := (audios s ! a)\<lparr>playing := False\<rparr>]\<rparr>
      else s)"

text \<open>
  \<open>playAudio\<close>, lines 9-47. \<open>started\<close> says whether the promise of \<open>audio.play()\<close>
  resolves; when it rejects, the catch block runs.
\<close>

definition playAudio :: "nat \<Rightarrow> bool \<Rightarrow> player \<Rightarrow> player" where
  "playAudio audioBlob started s =
     (let s1 = (case audioRef s of
                  None \<Rightarrow> s
                | Some a \<Rightarrow> (pause a s)\<lparr>audioRef := None\<rparr>);
          s2 = s1\<lparr>audios := audios s1 @ [\<lparr>src = audioBlob, playing = False, position = 0\<rparr>],
                 audioRef := Some (length (audios s1)),
                 isPlaying := True\<rparr>
      in if started
         then s2\<lparr>audios := (audios s2)
                [length (audios s1) := (audios s2 ! length (audios s1))\<lparr>playing := True\<rparr>]\<rparr>
         else s2\<lparr>console_pl := console_pl s2 @ [ErroReproduzirAudio], isPlaying := False\<rparr>)"

text \<open>
  The listeners of audio \<open>a\<close> for \<open>ended\<close> and \<open>error\<close>, lines 29-39. The browser
  delivers either event once the element has stopped playing.
\<close>

definition onended :: "nat \<Rightarrow> player \<Rightarrow> player" where
  "onended a s =
     (if a < length (audios s)
      then (pause a s)\<lparr>isPlaying := False, currentTime := 0,
             revoked := revoked s @ [src (audios s ! a)]\<rparr>
      else s)"

definition onerror :: "nat \<Rightarrow> player \<Rightarrow> player" where
  "onerror a s =
     (if a < length (audios s)
      then (pause a s)\<lparr>console_pl := console_pl s @ [ErroReproduzirAudio],
             isPlaying := False, revoked := revoked s @ [src (audios s ! a)]\<rparr>
      else s)"

text \<open>\<open>pauseAudio\<close> and \<open>stopAudio\<close>, lines 49-63.\<close>

definition pauseAudio :: "player \<Rightarrow> player" where
  "pauseAudio s =
     (case audioRef s of None \<Rightarrow> s | Some a \<Rightarrow> (pause a s)\<lparr>isPlaying := False\<rparr>)"

definition stopAudio :: "player \<Rightarrow> player" where
  "stopAudio s =
     (case audioRef s of
        None \<Rightarrow> s
      | Some a \<Rightarrow>
          (if a < length (audios s)
           then s\<lparr>audios := (audios s)[a := (audios s ! a)\<lparr>playing := False, position := 0\<rparr>]\<rparr>
           else s)\<lparr>isPlaying := False, currentTime := 0\<rparr>)"

text \<open>Every audio that is playing is the one \<open>audioRef\<close> holds.\<close>

definition one_playing :: "player \<Rightarrow> bool" where
  "one_playing s \<longleftrightarrow>
     (\<forall>a < length (audios s). playing (audios s ! a) \<longrightarrow> audioRef s = Some a)"

section \<open>AdvancedVoiceChat (src/unnamed/part_001)\<close>

datatype connectionStatus = Connecting | Connected | Disconnected

datatype conversationMode = Speed | Balanced | Quality

record performance =
  response_time :: real
  tokens_per_second :: real

record ModelInfo =
  name :: jsstring
  size_mi :: jsstring
  ram_usage :: jsstring
  speed_rating :: nat
  quality_rating :: nat
  best_for :: "jsstring list"
  available :: bool
  performance :: "performance option"

record ConversationStats =
  model_used :: jsstring
  response_time_cs :: real
  tokens_generated :: nat
  conversation_length :: nat

record message_av =
  id_av :: nat
  text_av :: jsstring
  isUser :: bool
  timestamp_av :: nat
  stats :: "ConversationStats option"
  modelInfo :: "ModelInfo option"

text \<open>The body of the POST to \<open>/chat\<close>, lines 225-229.\<close>

record chat_request =
  message_rq :: jsstring
  conversation_type :: conversationMode
  model_preference :: "jsstring option"

text \<open>
  The component: React state, then the browser objects it has created (sockets,
  pending reconnection timers by delay, recorders) and what it has sent and reported.
\<close>

record avc =
  messages_av :: "message_av list"
  isRecording_av :: bool
  isProcessing_av :: bool
  inputText_av :: jsstring
  currentModel :: jsstring
  conversationMode :: conversationMode
  autoModelSwitch :: bool
  wsConnection :: "nat option"
  connectionStatus :: connectionStatus
  mediaRecorder :: "nat option"
  audioChunks :: "nat list"
  sockets_av :: "readyState list"
  timers_av :: "nat list"
  recorders_av :: "recstate list"
  requests :: "chat_request list"
  console_av :: "logmsg list"
  alerts_av :: "alertmsg list"

text \<open>\<open>'gemma2:2b'\<close>\<close>

definition gemma2_2b :: jsstring where
  "gemma2_2b = [103, 101, 109, 109, 97, 50, 58, 50, 98]"

definition initial_av :: avc where
  "initial_av = \<lparr> messages_av = [], isRecording_av = False, isProcessing_av = False,
     inputText_av = [], currentModel = gemma2_2b, conversationMode = Balanced,
     autoModelSwitch = True, wsConnection = None, connectionStatus = Disconnected,
     mediaRecorder = None, audioChunks = [], sockets_av = [], timers_av = [],
     recorders_av = [], requests = [], console_av = [], alerts_av = [] \<rparr>"

text \<open>
  \<open>connectWebSocket\<close>, lines 99-129. \<open>constructed\<close> says whether \<open>new WebSocket\<close>
  returns; when it throws, the catch block runs.
\<close>

definition connectWebSocket_av :: "bool \<Rightarrow> avc \<Rightarrow> avc" where
  "connectWebSocket_av constructed s =
     (let s1 = s\<lparr>connectionStatus := Connecting\<rparr>
      in if constructed then s1\<lparr>sockets_av := sockets_av s1 @ [CONNECTING]\<rparr>
         else s1\<lparr>console_av := console_av s1 @ [ErroConectandoWebSocket],
                 connectionStatus := Disconnected\<rparr>)"

definition onopen_av :: "nat \<Rightarrow> avc \<Rightarrow> avc" where
  "onopen_av i s = s\<lparr>connectionStatus := Connected, wsConnection := Some i\<rparr>"

definition onclose_av :: "avc \<Rightarrow> avc" where
  "onclose_av s = s\<lparr>connectionStatus := Disconnected, wsConnection := None,
                    timers_av := timers_av s @ [3000]\<rparr>"

definition onerror_av :: "avc \<Rightarrow> avc" where
  "onerror_av s = s\<lparr>console_av := console_av s @ [WebSocketError],
                    connectionStatus := Disconnected\<rparr>"

text \<open>
  The cleanup of the mount effect, lines 65-69. The effect has no dependencies, so
  \<open>wsConnection\<close> in the cleanup is the value of the first render.
\<close>

definition cleanup_av :: "nat option \<Rightarrow> avc \<Rightarrow> avc" where
  "cleanup_av wsConnection_seen s =
     (case wsConnection_seen of
        None \<Rightarrow> s
      | Some i \<Rightarrow>
          if i < length (sockets_av s) \<and> sockets_av s ! i \<in> {CONNECTING, OPEN}
          then s\<lparr>sockets_av := (sockets_av s)[i := CLOSING]\<rparr>
          else s)"

text \<open>The socket events and the timer, as the browser delivers them.\<close>

datatype event_av =
    Mount_av bool
  | Unmount_av
  | WsOpen_av nat
  | WsError_av nat
  | WsClose_av nat
  | TimerFire_av nat bool

definition step_av :: "event_av \<Rightarrow> avc \<Rightarrow> avc" where
  "step_av e s =
     (case e of
        Mount_av constructed \<Rightarrow> connectWebSocket_av constructed s
      | Unmount_av \<Rightarrow> cleanup_av (wsConnection initial_av) s
      | WsOpen_av i \<Rightarrow>
          if i < length (sockets_av s) \<and> sockets_av s ! i = CONNECTING
          then onopen_av i (s\<lparr>sockets_av := (sockets_av s)[i := OPEN]\<rparr>)
          else s
      | WsError_av i \<Rightarrow>
          if i < length (sockets_av s) \<and> sockets_av s ! i \<noteq> CLOSED
          then onerror_av s else s
      | WsClose_av i \<Rightarrow>
          if i < length (sockets_av s) \<and> sockets_av s ! i \<noteq> CLOSED
          then onclose_av (s\<lparr>sockets_av := (sockets_av s)[i := CLOSED]\<rparr>)
          else s
      | TimerFire_av k constructed \<Rightarrow>
          if k < length (timers_av s)
          then connectWebSocket_av constructed
                 (s\<lparr>timers_av := take k (timers_av s) @ drop (Suc k) (timers_av s)\<rparr>)
          else s)"

fun run_av :: "event_av list \<Rightarrow> avc \<Rightarrow> avc" where
  "run_av [] s = s"
| "run_av (e # es) s = run_av es (step_av e s)"



text \<open>
  \<open>startRecording\<close>, lines 144-168, from the point where \<open>getUserMedia\<close> settles, and
  \<open>ondataavailable\<close> and \<open>stopRecording\<close>, lines 149-175.
\<close>

definition startRecording_av :: "bool \<Rightarrow> avc \<Rightarrow> avc" where
  "startRecording_av granted s =
     (if granted
      then s\<lparr>recorders_av := recorders_av s @ [Recording],
             mediaRecorder := Some (length (recorders_av s)),
             audioChunks := [],
             isRecording_av := True\<rparr>
      else s\<lparr>console_av := console_av s @ [ErroIniciarGravacao],
             alerts_av := alerts_av s @ [AlertMicrofone]\<rparr>)"

definition ondataavailable_av :: "nat \<Rightarrow> nat \<Rightarrow> avc \<Rightarrow> avc" where
  "ondataavailable_av chunk chunk_size s =
     (if 0 < chunk_size then s\<lparr>audioChunks := audioChunks s @ [chunk]\<rparr> else s)"

definition stopRecording_av :: "avc \<Rightarrow> avc" where
  "stopRecording_av s =
     (case mediaRecorder s of
        None \<Rightarrow> s
      | Some r \<Rightarrow>
          if isRecording_av s \<and> r < length (recorders_av s) \<and> recorders_av s ! r = Recording
          then s\<lparr>recorders_av := (recorders_av s)[r := Stopping], isRecording_av := False\<rparr>
          else s)"

text \<open>
  The result of the POST to \<open>/chat\<close>: the fetch or the JSON decoding throws, or the
  body is decoded; \<open>data.stats\<close> may be missing from it.
\<close>

datatype chat_result =
    ChatThrows
  | ChatOk jsstring "ConversationStats option" "ModelInfo option"

text \<open>\<open>'Desculpe, houve um erro. Tente novamente.'\<close>\<close>

definition desculpe :: jsstring where
  "desculpe = [68, 101, 115, 99, 117, 108, 112, 101, 44, 32, 104, 111, 117, 118, 101, 32,
     117, 109, 32, 101, 114, 114, 111, 46, 32, 84, 101, 110, 116, 101, 32, 110, 111, 118,
     97, 109, 101, 110, 116, 101, 46]"

definition sendMessage_failed :: "nat \<Rightarrow> avc \<Rightarrow> avc" where
  "sendMessage_failed now s =
     s\<lparr>console_av := console_av s @ [ErroEnviandoMensagem],
       messages_av := messages_av s @
         [\<lparr>id_av = now + 1, text_av = desculpe, isUser = False, timestamp_av = now,
           stats = None, modelInfo = None\<rparr>]\<rparr>"

text \<open>
  \<open>sendMessage\<close>, lines 207-257. \<open>seen\<close> is the state of the render whose closure runs:
  \<open>conversationMode\<close>, \<open>autoModelSwitch\<close> and \<open>currentModel\<close> are read from it.
\<close>

definition sendMessage_av :: "avc \<Rightarrow> jsstring \<Rightarrow> nat \<Rightarrow> chat_result \<Rightarrow> avc \<Rightarrow> avc" where
  "sendMessage_av seen t now res s =
     (if trim t = [] then s
      else
        let userMessage = \<lparr>id_av = now, text_av = t, isUser = True, timestamp_av = now,
              stats = None, modelInfo = None\<rparr>;
            request = \<lparr>message_rq = t, conversation_type = conversationMode seen,
              model_preference = (if autoModelSwitch seen then None else Some (currentModel seen))\<rparr>;
            s1 = s\<lparr>messages_av := messages_av s @ [userMessage], inputText_av := [],
                   isProcessing_av := True, requests := requests s @ [request]\<rparr>;
            s2 = (case res of
                    ChatThrows \<Rightarrow> sendMessage_failed now s1
                  | ChatOk response st mi \<Rightarrow>
                      let s3 = s1\<lparr>messages_av := messages_av s1 @
                                 [\<lparr>id_av = now + 1, text_av = response, isUser = False,
                                   timestamp_av = now, stats = st, modelInfo = mi\<rparr>]\<rparr>
                      in (case st of
                            None \<Rightarrow> sendMessage_failed now s3
                          | Some x \<Rightarrow> s3\<lparr>currentModel := model_used x\<rparr>))
        in s2\<lparr>isProcessing_av := False\<rparr>)"

text \<open>
  The result of the POST to \<open>/transcribe\<close>: the fetch or the JSON decoding throws (or
  \<open>text\<close> is missing, so that \<open>trim\<close> throws), or the body carries a text.
\<close>

datatype transcription = TranscribeThrows | TranscribeText jsstring

text \<open>
  \<open>processAudio\<close>, lines 177-205, as the closure of the render \<open>seen\<close>: the recorder's
  \<open>onstop\<close> calls the \<open>processAudio\<close> of the render in which \<open>startRecording\<close> ran.
\<close>

definition processAudio_av :: "avc \<Rightarrow> transcription \<Rightarrow> nat \<Rightarrow> chat_result \<Rightarrow> avc \<Rightarrow> avc" where
  "processAudio_av seen tr now res s =
     (if audioChunks seen = [] then s
      else
        let s1 = s\<lparr>isProcessing_av := True\<rparr>;
            s2 = (case tr of
                    TranscribeText t \<Rightarrow>
                      if trim t \<noteq> [] then sendMessage_av seen (trim t) now res s1 else s1
                  | TranscribeThrows \<Rightarrow>
                      s1\<lparr>console_av := console_av s1 @ [ErroProcessandoAudio],
                         alerts_av := alerts_av s1 @ [AlertProcessarAudio]\<rparr>)
        in s2\<lparr>isProcessing_av := False, audioChunks := []\<rparr>)"

definition no_text_av :: "transcription \<Rightarrow> bool" where
  "no_text_av tr \<longleftrightarrow>
     (case tr of TranscribeThrows \<Rightarrow> True | TranscribeText t \<Rightarrow> trim t = [])"

section \<open>Model selection\<close>










section \<open>Properties of the running statistics\<close>

lemmas rtc_defs = step_def initial_def connectWebSocket_def onclose_def ws_close_def cleanup_def
  rerun_effect_def sendMessage_def handleTextSubmit_def startRecording_def stopRecording_def
  processAudio_begin_def processAudio_resume_def onmessage_def speakText_def trim_def
  isWhiteSpace_def Let_def

text \<open>
  C1. The running average after n completed turns is the arithmetic mean of their
  latencies. The run below completes two turns with non-zero latencies \<open>a\<close> and \<open>b\<close>:
  the first reply changes \<open>totalMessages\<close>, so the effect closes socket 0 and opens
  socket 1; the close event of socket 0 schedules the \<open>connectWebSocket\<close> of the first
  effect run, and the socket 2 it opens, which \<open>wsRef\<close> then holds, has a handler that
  still sees \<open>totalMessages = 0\<close>. The second reply arrives there: the count is 2 and
  the average is \<open>b\<close>, the last latency, not the mean of \<open>a\<close> and \<open>b\<close>.
\<close>

theorem C1_average_is_last_latency:
  assumes "a \<noteq> 0" and "b \<noteq> 0"
  shows "totalMessages (run [Mount, WsOpen 0, TypeText [104], SubmitForm 5,
           WsMessage 0 (ChatResponse [111] (Some a)) 9, WsClose 0, TimerFire 0, WsOpen 2,
           TypeText [104], SubmitForm 15, WsMessage 2 (ChatResponse [111] (Some b)) 19]
           initial) = 2 \<and>
         avgResponseTime (run [Mount, WsOpen 0, TypeText [104], SubmitForm 5,
           WsMessage 0 (ChatResponse [111] (Some a)) 9, WsClose 0, TimerFire 0, WsOpen 2,
           TypeText [104], SubmitForm 15, WsMessage 2 (ChatResponse [111] (Some b)) 19]
           initial) = b \<and>
         avgResponseTime (run [Mount, WsOpen 0, TypeText [104], SubmitForm 5,
           WsMessage 0 (ChatResponse [111] (Some a)) 9] initial) = a"
  using assms by (simp add: rtc_defs)

text \<open>
  C1, at the latencies 0.8 and 1.2: the average after the two turns is 1.2, and their
  mean is 1.
\<close>

theorem C1_average_is_last_latency_witness:
  "(4/5 :: real) \<noteq> 0 \<and> (6/5 :: real) \<noteq> 0 \<and>
   totalMessages (run [Mount, WsOpen 0, TypeText [104], SubmitForm 5,
     WsMessage 0 (ChatResponse [111] (Some (4/5))) 9, WsClose 0, TimerFire 0, WsOpen 2,
     TypeText [104], SubmitForm 15, WsMessage 2 (ChatResponse [111] (Some (6/5))) 19]
     initial) = 2 \<and>
   avgResponseTime (run [Mount, WsOpen 0, TypeText [104], SubmitForm 5,
     WsMessage 0 (ChatResponse [111] (Some (4/5))) 9, WsClose 0, TimerFire 0, WsOpen 2,
     TypeText [104], SubmitForm 15, WsMessage 2 (ChatResponse [111] (Some (6/5))) 19]
     initial) = 6/5 \<and>
   (4/5 + 6/5) / 2 = (1 :: real)"
proof -
  have h1: "(4/5 :: real) \<noteq> 0" and h2: "(6/5 :: real) \<noteq> 0" by simp_all
  from C1_average_is_last_latency [OF h1 h2] show ?thesis by simp
qed

text \<open>
  C10. A chat reply whose \<open>processing_time\<close> is absent or zero is appended to the
  conversation as an assistant message, and the count of completed turns and the
  running average are left as they were.
\<close>

theorem C10_unmeasured_reply:
  assumes "pt = None \<or> pt = Some 0"
  shows "messages (onmessage n now (ChatResponse c pt) s)
           = messages s @ [\<lparr>id_rt = now, role = Assistant, content = c,
                             timestamp_rt = now, processingTime = pt\<rparr>] \<and>
         totalMessages (onmessage n now (ChatResponse c pt) s) = totalMessages s \<and>
         avgResponseTime (onmessage n now (ChatResponse c pt) s) = avgResponseTime s"
  using assms by (auto simp add: onmessage_def speakText_def Let_def)

text \<open>C10, at a reply with \<open>processing_time = 0\<close> in the initial state.\<close>

theorem C10_unmeasured_reply_witness:
  "(Some (0::real) = None \<or> Some (0::real) = Some 0) \<and>
   messages (onmessage 0 7 (ChatResponse [111, 107] (Some 0)) initial)
     = [\<lparr>id_rt = 7, role = Assistant, content = [111, 107], timestamp_rt = 7,
         processingTime = Some 0\<rparr>] \<and>
   totalMessages (onmessage 0 7 (ChatResponse [111, 107] (Some 0)) initial) = 0 \<and>
   avgResponseTime (onmessage 0 7 (ChatResponse [111, 107] (Some 0)) initial) = 0"
  using C10_unmeasured_reply [of "Some 0" 0 7 "[111, 107]" initial]
  by (simp add: initial_def)

section \<open>Properties of the turn pipeline\<close>

text \<open>
  C2. At most one dispatched turn is unanswered at any time. The run below stops the
  recorder, submits a typed text before the recorder's stop event is delivered, and
  then receives the transcription: two chat requests are sent on the socket and no
  reply has arrived between them.
\<close>

theorem C2_second_dispatch_before_reply:
  "map sent (sockets (run [Mount, WsOpen 0, ClickMic, MicSettled True, TypeText [104, 105],
       ClickMic, SubmitForm 5, RecorderStop 0, SttDone 0 (SttOk [121, 111]) 7] initial))
     = [[Chat [104, 105], Chat [121, 111]]] \<and>
   map role (messages (run [Mount, WsOpen 0, ClickMic, MicSettled True, TypeText [104, 105],
       ClickMic, SubmitForm 5, RecorderStop 0, SttDone 0 (SttOk [121, 111]) 7] initial))
     = [User, User]"
  by (simp add: rtc_defs)

text \<open>
  C3 as stated fails: an empty transcription ends \<open>processAudio\<close> in both components
  with nothing written to the console and no alert.
\<close>

theorem C3_empty_transcription_not_reported:
  "console (processAudio (SttOk []) 1 initial) = [] \<and>
   alerts (processAudio (SttOk []) 1 initial) = [] \<and>
   console_av (processAudio_av (initial_av\<lparr>audioChunks := [1]\<rparr>) (TranscribeText []) 1 ChatThrows initial_av) = [] \<and>
   alerts_av (processAudio_av (initial_av\<lparr>audioChunks := [1]\<rparr>) (TranscribeText []) 1 ChatThrows initial_av) = []"
  by (simp add: processAudio_def processAudio_av_def rtc_defs initial_av_def)

text \<open>
  C3 (as amended). When the transcription errs or yields empty or whitespace-only
  text, no message is added to the conversation and nothing is sent; a thrown error is
  logged (and alerted in AdvancedVoiceChat), and empty or whitespace-only text is not
  reported at all.
\<close>

theorem C3_failed_transcription_adds_no_turn:
  assumes "no_text r" and "no_text_av tr"
  shows "messages (processAudio r now s) = messages s \<and>
         sockets (processAudio r now s) = sockets s \<and>
         console (processAudio r now s)
           = (if r = SttThrows then console s @ [ErroProcessamentoAudio] else console s) \<and>
         alerts (processAudio r now s) = alerts s \<and>
         messages_av (processAudio_av seen tr now res a) = messages_av a \<and>
         requests (processAudio_av seen tr now res a) = requests a \<and>
         console_av (processAudio_av seen tr now res a)
           = (if tr = TranscribeThrows \<and> audioChunks seen \<noteq> []
              then console_av a @ [ErroProcessandoAudio] else console_av a) \<and>
         alerts_av (processAudio_av seen tr now res a)
           = (if tr = TranscribeThrows \<and> audioChunks seen \<noteq> []
              then alerts_av a @ [AlertProcessarAudio] else alerts_av a)"
proof -
  have rt: "messages (processAudio r now s) = messages s \<and>
         sockets (processAudio r now s) = sockets s \<and>
         console (processAudio r now s)
           = (if r = SttThrows then console s @ [ErroProcessamentoAudio] else console s) \<and>
         alerts (processAudio r now s) = alerts s"
    using assms(1)
    by (cases r) (simp_all add: no_text_def processAudio_def processAudio_begin_def processAudio_resume_def)
  have av: "messages_av (processAudio_av seen tr now res a) = messages_av a \<and>
         requests (processAudio_av seen tr now res a) = requests a \<and>
         console_av (processAudio_av seen tr now res a)
           = (if tr = TranscribeThrows \<and> audioChunks seen \<noteq> []
              then console_av a @ [ErroProcessandoAudio] else console_av a) \<and>
         alerts_av (processAudio_av seen tr now res a)
           = (if tr = TranscribeThrows \<and> audioChunks seen \<noteq> []
              then alerts_av a @ [AlertProcessarAudio] else alerts_av a)"
    using assms(2)
    by (cases tr) (simp_all add: no_text_av_def processAudio_av_def Let_def)
  from rt av show ?thesis by simp
qed

text \<open>
  C3, at a whitespace-only transcription in RealTimeChat and a failed request in
  AdvancedVoiceChat.
\<close>

theorem C3_failed_transcription_witness:
  "no_text (SttOk [32, 9]) \<and> no_text_av TranscribeThrows \<and>
   messages (processAudio (SttOk [32, 9]) 3 initial) = [] \<and>
   console (processAudio (SttOk [32, 9]) 3 initial) = [] \<and>
   messages_av (processAudio_av (initial_av\<lparr>audioChunks := [1]\<rparr>) TranscribeThrows 3 ChatThrows initial_av) = [] \<and>
   alerts_av (processAudio_av (initial_av\<lparr>audioChunks := [1]\<rparr>) TranscribeThrows 3 ChatThrows initial_av) = [AlertProcessarAudio]"
proof -
  have h1: "no_text (SttOk [32, 9])" by (simp add: no_text_def trim_def isWhiteSpace_def)
  have h2: "no_text_av TranscribeThrows" by (simp add: no_text_av_def)
  from C3_failed_transcription_adds_no_turn [OF h1 h2, where now = 3 and s = initial
      and seen = "initial_av\<lparr>audioChunks := [1]\<rparr>" and res = ChatThrows and a = initial_av] h1 h2
  show ?thesis by (simp add: initial_def initial_av_def)
qed




section \<open>Properties of the capture and playback controllers\<close>

text \<open>
  C9. At most one recording is active at a time. The microphone button calls
  \<open>startRecording\<close> only while \<open>isRecording\<close> is false, but \<open>isRecording\<close> is set only
  once \<open>getUserMedia\<close> has settled: after two clicks before the first settles, the
  second \<open>startRecording\<close> runs while a recording is active, starts a second recorder
  and replaces \<open>mediaRecorderRef\<close>, and nothing is reported. The next click stops the
  second recorder only; the first keeps recording, no later click reaches it, and its
  stream is never released. \<open>startRecording\<close> of AdvancedVoiceChat has no check either.
\<close>

theorem C9_second_recording_started:
  "isRecording (run [Mount, ClickMic, ClickMic, MicSettled True] initial) \<and>
   recorders (run [Mount, ClickMic, ClickMic, MicSettled True] initial) = [Recording] \<and>
   recorders (run [Mount, ClickMic, ClickMic, MicSettled True, MicSettled True] initial)
     = [Recording, Recording] \<and>
   mediaRecorderRef (run [Mount, ClickMic, ClickMic, MicSettled True, MicSettled True] initial)
     = Some 1 \<and>
   console (run [Mount, ClickMic, ClickMic, MicSettled True, MicSettled True] initial) = [] \<and>
   alerts (run [Mount, ClickMic, ClickMic, MicSettled True, MicSettled True] initial) = [] \<and>
   recorders (run [Mount, ClickMic, ClickMic, MicSettled True, MicSettled True, ClickMic,
       RecorderStop 1, SttDone 1 (SttOk []) 9] initial) = [Recording, Released] \<and>
   isRecording (run [Mount, ClickMic, ClickMic, MicSettled True, MicSettled True, ClickMic,
       RecorderStop 1, SttDone 1 (SttOk []) 9] initial) = False \<and>
   recorders (run [Mount, ClickMic, ClickMic, MicSettled True, MicSettled True, ClickMic,
       RecorderStop 1, SttDone 1 (SttOk []) 9, ClickMic, MicSettled False] initial)
     = [Recording, Released] \<and>
   recorders (startRecording True (startRecording True initial)) = [Recording, Recording] \<and>
   recorders_av (startRecording_av True (startRecording_av True initial_av))
     = [Recording, Recording] \<and>
   alerts_av (startRecording_av True (startRecording_av True initial_av)) = []"
  by (simp add: rtc_defs startRecording_av_def initial_av_def)

lemmas player_defs = playAudio_def pause_def onended_def onerror_def idle_def Let_def

text \<open>
  C4 as stated fails: \<open>playAudio\<close> during a playback pauses the audio in progress and
  starts the new one; nothing fails.
\<close>

theorem C4_play_while_playing_preempts:
  "isPlaying (playAudio 1 True idle) \<and>
   playing (audios (playAudio 1 True idle) ! 0) \<and>
   \<not> playing (audios (playAudio 2 True (playAudio 1 True idle)) ! 0) \<and>
   audioRef (playAudio 2 True (playAudio 1 True idle)) = Some 1 \<and>
   playing (audios (playAudio 2 True (playAudio 1 True idle)) ! 1) \<and>
   console_pl (playAudio 2 True (playAudio 1 True idle)) = []"
  by (simp add: player_defs)

lemma playAudio_started:
  "audios (playAudio b True s)
     = (case audioRef s of None \<Rightarrow> audios s | Some a \<Rightarrow> audios (pause a s))
       @ [\<lparr>src = b, playing = True, position = 0\<rparr>] \<and>
   audioRef (playAudio b True s) = Some (length (audios s)) \<and>
   isPlaying (playAudio b True s) \<and>
   console_pl (playAudio b True s) = console_pl s"
  by (cases "audioRef s") (simp_all add: playAudio_def pause_def Let_def)

lemma pause_current_silences:
  assumes "one_playing s" and "audioRef s = Some a" and "i < length (audios s)"
  shows "\<not> playing (audios (pause a s) ! i)"
proof (cases "i = a")
  case True
  with assms(3) show ?thesis by (simp add: pause_def)
next
  case False
  with assms have "\<not> playing (audios s ! i)" by (auto simp add: one_playing_def)
  with False show ?thesis by (simp add: pause_def)
qed

lemma playAudio_one_playing:
  assumes "one_playing s"
  shows "one_playing (playAudio b True s)"
proof (cases "audioRef s")
  case None
  with assms have "\<forall>i < length (audios s). \<not> playing (audios s ! i)"
    by (simp add: one_playing_def)
  with None show ?thesis
    using playAudio_started [of b s]
    by (auto simp add: one_playing_def nth_append less_Suc_eq)
next
  case (Some a)
  have len: "length (audios (pause a s)) = length (audios s)" by (simp add: pause_def)
  from pause_current_silences [OF assms Some]
  have "\<forall>i < length (audios s). \<not> playing (audios (pause a s) ! i)" by simp
  with Some len show ?thesis
    using playAudio_started [of b s]
    by (auto simp add: one_playing_def nth_append less_Suc_eq)
qed

text \<open>Every operation of the hook keeps at most the current audio playing.\<close>

lemma one_playing_idle: "one_playing idle"
  by (simp add: one_playing_def idle_def)

lemma one_playing_rejected:
  assumes "one_playing s"
  shows "one_playing (playAudio b False s)"
proof (cases "audioRef s")
  case None
  with assms have "\<forall>i < length (audios s). \<not> playing (audios s ! i)"
    by (simp add: one_playing_def)
  with None show ?thesis
    by (auto simp add: one_playing_def playAudio_def Let_def nth_append less_Suc_eq)
next
  case (Some a)
  from pause_current_silences [OF assms Some]
  have "\<forall>i < length (audios s). \<not> playing (audios (pause a s) ! i)" by simp
  moreover have "length (audios (pause a s)) = length (audios s)" by (simp add: pause_def)
  ultimately show ?thesis using Some
    by (auto simp add: one_playing_def playAudio_def Let_def nth_append less_Suc_eq)
qed

lemma one_playing_pause:
  "one_playing s \<Longrightarrow> one_playing (pause a s)"
  by (auto simp add: one_playing_def pause_def nth_list_update)

lemma one_playing_events:
  assumes "one_playing s"
  shows "one_playing (onended a s)" and "one_playing (onerror a s)"
    and "one_playing (pauseAudio s)" and "one_playing (stopAudio s)"
  using assms
  by (auto simp add: one_playing_def onended_def onerror_def pauseAudio_def stopAudio_def
        pause_def nth_list_update split: option.splits)

text \<open>
  C4 (as amended). \<open>playAudio\<close> never refuses: an audio in progress is paused and
  replaced, the new audio becomes the current one and the only one playing, and
  \<open>isPlaying\<close> is set until the new audio ends or errs; when \<open>play()\<close> is rejected,
  \<open>isPlaying\<close> is reset.
\<close>

theorem C4_play_replaces_current:
  assumes "one_playing s"
  shows "audioRef (playAudio b True s) = Some (length (audios s)) \<and>
         playing (audios (playAudio b True s) ! length (audios s)) \<and>
         isPlaying (playAudio b True s) \<and>
         console_pl (playAudio b True s) = console_pl s \<and>
         one_playing (playAudio b True s) \<and>
         \<not> isPlaying (onended (length (audios s)) (playAudio b True s)) \<and>
         \<not> isPlaying (onerror (length (audios s)) (playAudio b True s)) \<and>
         \<not> isPlaying (playAudio b False s)"
proof -
  have len: "length (case audioRef s of None \<Rightarrow> audios s | Some a \<Rightarrow> audios (pause a s)) = length (audios s)"
    by (simp add: pause_def split: option.splits)
  have new: "playing (audios (playAudio b True s) ! length (audios s))"
    using playAudio_started [of b s] len by (simp add: nth_append)
  have lenp: "length (audios (playAudio b True s)) = Suc (length (audios s))"
    using playAudio_started [of b s] len by simp
  have ev: "\<not> isPlaying (onended (length (audios s)) (playAudio b True s)) \<and>
         \<not> isPlaying (onerror (length (audios s)) (playAudio b True s))"
    using lenp by (simp add: onended_def onerror_def)
  have rej: "\<not> isPlaying (playAudio b False s)"
    by (simp add: playAudio_def Let_def)
  from playAudio_started [of b s] new playAudio_one_playing [OF assms] ev rej
  show ?thesis by simp
qed

text \<open>
  C4, at a second \<open>playAudio\<close> during the playback started by a first.
\<close>

theorem C4_play_replaces_current_witness:
  "one_playing (playAudio 1 True idle) \<and>
   audioRef (playAudio 2 True (playAudio 1 True idle)) = Some 1 \<and>
   isPlaying (playAudio 2 True (playAudio 1 True idle)) \<and>
   one_playing (playAudio 2 True (playAudio 1 True idle)) \<and>
   \<not> isPlaying (onended 1 (playAudio 2 True (playAudio 1 True idle)))"
proof -
  have i: "one_playing idle" by (simp add: one_playing_def idle_def)
  have h: "one_playing (playAudio 1 True idle)"
    using C4_play_replaces_current [OF i, of 1] by simp
  have l: "length (audios (playAudio 1 True idle)) = 1" by (simp add: player_defs)
  from C4_play_replaces_current [OF h, of 2] h l show ?thesis by simp
qed

section \<open>Properties of the connection\<close>

lemmas av_defs = step_av_def initial_av_def connectWebSocket_av_def onopen_av_def onclose_av_def
  onerror_av_def cleanup_av_def Let_def

text \<open>
  C5. After the explicit teardown no reconnection occurs and a pending reconnection
  timer is cancelled. In RealTimeChat the cleanup does close the open socket, but the
  close event that follows schedules a reconnection like any other close, and when the
  timer fires a second socket is opened and becomes the current one; a timer that is
  pending at the cleanup stays pending. In AdvancedVoiceChat the cleanup sees the
  \<open>wsConnection\<close> of the first render and leaves the open socket open; after a later
  close the timer fires and the status is \<open>Connecting\<close> again.
\<close>

theorem C5_reconnect_after_close:
  "map readyState (sockets (run [Mount, WsOpen 0] initial)) = [OPEN] \<and>
   map readyState (sockets (run [Mount, WsOpen 0, Unmount] initial)) = [CLOSING] \<and>
   timers (run [Mount, WsOpen 0, Unmount, WsClose 0] initial) = [(3000, 0)] \<and>
   map readyState (sockets (run [Mount, WsOpen 0, Unmount, WsClose 0, TimerFire 0] initial))
     = [CLOSED, CONNECTING] \<and>
   wsRef (run [Mount, WsOpen 0, Unmount, WsClose 0, TimerFire 0] initial) = Some 1 \<and>
   timers (run [Mount, WsOpen 0, WsClose 0] initial) = [(3000, 0)] \<and>
   timers (run [Mount, WsOpen 0, WsClose 0, Unmount] initial) = [(3000, 0)] \<and>
   sockets_av (run_av [Mount_av True, WsOpen_av 0, Unmount_av] initial_av) = [OPEN] \<and>
   connectionStatus (run_av [Mount_av True, WsOpen_av 0, Unmount_av] initial_av) = Connected \<and>
   timers_av (run_av [Mount_av True, WsOpen_av 0, Unmount_av, WsClose_av 0] initial_av)
     = [3000] \<and>
   connectionStatus (run_av [Mount_av True, WsOpen_av 0, Unmount_av, WsClose_av 0,
       TimerFire_av 0 True] initial_av) = Connecting \<and>
   sockets_av (run_av [Mount_av True, WsOpen_av 0, Unmount_av, WsClose_av 0,
       TimerFire_av 0 True] initial_av) = [CLOSED, CONNECTING]"
  by (simp add: rtc_defs av_defs)

text \<open>
  C6. Whenever an established connection closes or a connection attempt fails, the
  status becomes \<open>Disconnected\<close> and exactly one reconnection is scheduled, after the
  constant 3000 ms; when that timer fires, the status becomes \<open>Connecting\<close> and a new
  socket is opened. The browser reports both through the close event of the socket, a
  failed attempt as an error event followed by the close event; the constructor, called
  with a constant well-formed URL, returns.
\<close>

theorem C6_close_schedules_one_reconnect:
  assumes "i < length (sockets_av a)" and "sockets_av a ! i \<noteq> CLOSED"
  shows "connectionStatus (step_av (WsClose_av i) a) = Disconnected \<and>
         timers_av (step_av (WsClose_av i) a) = timers_av a @ [3000] \<and>
         connectionStatus (step_av (WsClose_av i) (step_av (WsError_av i) a)) = Disconnected \<and>
         timers_av (step_av (WsClose_av i) (step_av (WsError_av i) a)) = timers_av a @ [3000] \<and>
         connectionStatus (step_av (TimerFire_av (length (timers_av a)) True) (step_av (WsClose_av i) a))
           = Connecting \<and>
         timers_av (step_av (TimerFire_av (length (timers_av a)) True) (step_av (WsClose_av i) a))
           = timers_av a \<and>
         sockets_av (step_av (TimerFire_av (length (timers_av a)) True) (step_av (WsClose_av i) a))
           = (sockets_av a)[i := CLOSED] @ [CONNECTING] \<and>
         timers (onclose n s) = timers s @ [(3000, n)]"
  using assms
  by (simp add: step_av_def onclose_av_def onerror_av_def connectWebSocket_av_def onclose_def Let_def)

text \<open>
  C6, at an established connection: \<open>Connected\<close>, then \<open>Disconnected\<close> with one timer of
  3000 ms, then \<open>Connecting\<close>.
\<close>

theorem C6_close_schedules_one_reconnect_witness:
  "0 < length (sockets_av (run_av [Mount_av True, WsOpen_av 0] initial_av)) \<and>
   sockets_av (run_av [Mount_av True, WsOpen_av 0] initial_av) ! 0 = OPEN \<and>
   connectionStatus (run_av [Mount_av True, WsOpen_av 0] initial_av) = Connected \<and>
   connectionStatus (run_av [Mount_av True, WsOpen_av 0, WsClose_av 0] initial_av) = Disconnected \<and>
   timers_av (run_av [Mount_av True, WsOpen_av 0, WsClose_av 0] initial_av) = [3000] \<and>
   connectionStatus (run_av [Mount_av True, WsOpen_av 0, WsClose_av 0, TimerFire_av 0 True] initial_av)
     = Connecting"
proof -
  have h: "0 < length (sockets_av (run_av [Mount_av True, WsOpen_av 0] initial_av)) \<and>
    sockets_av (run_av [Mount_av True, WsOpen_av 0] initial_av) ! 0 = OPEN \<and>
    connectionStatus (run_av [Mount_av True, WsOpen_av 0] initial_av) = Connected \<and>
    timers_av (run_av [Mount_av True, WsOpen_av 0] initial_av) = []"
    by (simp add: av_defs)
  then have h1: "0 < length (sockets_av (run_av [Mount_av True, WsOpen_av 0] initial_av))"
    and h2: "sockets_av (run_av [Mount_av True, WsOpen_av 0] initial_av) ! 0 \<noteq> CLOSED"
    by simp_all
  from C6_close_schedules_one_reconnect [OF h1 h2] h show ?thesis by simp
qed

section \<open>Properties of the model selection\<close>











end
